theory Spec2Isabelle
  imports Main
begin

section \<open>Shared vocabulary\<close>

text \<open>
  A JavaScript \<^verbatim>\<open>new Error(message)\<close>. A settled promise (or the result of an
  \<^verbatim>\<open>async\<close> function) is a sum: \<open>Inl\<close> is a rejection or a thrown error,
  \<open>Inr\<close> the value it was fulfilled with.
\<close>

datatype error = Error string

type_synonym 'a promise = "error + 'a"

datatype CancellationToken = CancellationToken (isCancellationRequested: bool)

definition CancellationToken_None :: CancellationToken where
  "CancellationToken_None = CancellationToken False"

section \<open>extHostLanguageModelTools.ts\<close>

subsection \<open>Data\<close>

text \<open>
  The argument of a token count is \<^verbatim>\<open>string | IChatMessage\<close> on the wire and
  \<^verbatim>\<open>string | vscode.LanguageModelChatMessage\<close> in the extension API; \<open>'m\<close> is
  the message type of the side in question.
\<close>

datatype 'm text_or_message = Text string | Message 'm

text \<open>
  \<^verbatim>\<open>(text, token?) => Thenable<number>\<close>: the token is optional.
\<close>

type_synonym 'vm countTokens_fn =
  "'vm text_or_message \<Rightarrow> CancellationToken option \<Rightarrow> int promise"

record 'vm tokenOptions =
  tokenBudget :: int
  countTokens :: "'vm countTokens_fn"

text \<open>\<^verbatim>\<open>vscode.LanguageModelToolInvokationOptions\<close>; \<^verbatim>\<open>tokenOptions\<close> is optional.\<close>

record ('p, 'vm) LanguageModelToolInvokationOptions =
  parameters :: 'p
  tokenOptions :: "'vm tokenOptions option"

text \<open>\<^verbatim>\<open>IToolInvokationDto\<close>, the request sent across the process boundary.\<close>

record 'p IToolInvokationDto =
  dto_toolId :: string
  dto_callId :: string
  dto_parameters :: 'p
  dto_tokenBudget :: "int option"

text \<open>
  \<^verbatim>\<open>IToolData\<close>: only the field \<^verbatim>\<open>id\<close> is read by this file; the remaining
  display metadata is the payload \<open>'d\<close>.
\<close>

record 'd IToolData =
  id_t :: string
  metadata :: 'd

text \<open>\<^verbatim>\<open>IToolDelta\<close>: \<^verbatim>\<open>{ added?: IToolData; removed?: string }\<close>.\<close>

record 'd IToolDelta =
  added :: "'d IToolData option"
  removed :: "string option"

text \<open>
  \<^verbatim>\<open>vscode.LanguageModelTool\<close>: its one method \<^verbatim>\<open>invoke(options, token)\<close>,
  which throws, rejects or yields a result.
\<close>

type_synonym ('p, 'vm, 'vr) LanguageModelTool =
  "('p, 'vm) LanguageModelToolInvokationOptions \<Rightarrow> CancellationToken \<Rightarrow> 'vr promise"

record ('x, 'p, 'vm, 'vr) registered_item =
  extension :: 'x
  tool :: "('p, 'vm, 'vr) LanguageModelTool"

text \<open>The three private maps of the class.\<close>

record ('x, 'p, 'vm, 'vr, 'd) ExtHostLanguageModelTools =
  registeredTools :: "string \<rightharpoonup> ('x, 'p, 'vm, 'vr) registered_item"
  tokenCountFuncs :: "string \<rightharpoonup> 'vm countTokens_fn"
  allTools :: "string \<rightharpoonup> 'd IToolData"

text \<open>
  The imported converters of \<^verbatim>\<open>extHostTypeConverters\<close> are parameters: pure
  mappings between the wire types (\<open>'m\<close>, \<open>'r\<close>) and the API types (\<open>'vm\<close>, \<open>'vr\<close>).
\<close>

record ('m, 'vm, 'r, 'vr) typeConvert =
  LanguageModelChatMessage_to :: "'m \<Rightarrow> 'vm"
  LanguageModelChatMessage_from :: "'vm \<Rightarrow> 'm"
  LanguageModelToolResult_to :: "'r \<Rightarrow> 'vr"
  LanguageModelToolResult_from :: "'vr \<Rightarrow> 'r"

subsection \<open>Call ids\<close>

text \<open>The decimal numeral of a number, most significant digit first.\<close>

definition digit_char :: "nat \<Rightarrow> char" where
  "digit_char d = char_of (48 + d)"

fun decimal :: "nat \<Rightarrow> string" where
  "decimal n = (if n < 10 then [digit_char n] else decimal (n div 10) @ [digit_char (n mod 10)])"

declare decimal.simps [simp del]

text \<open>
  Modelled from the spec: \<^verbatim>\<open>generateUuid\<close> of \<^verbatim>\<open>vs/base/common/uuid\<close> is
  imported and its source is not among the files of the repository at hand. The spec
  asks for "a fresh unique call id" per invocation. The generator is modelled as a
  counter, the only state it has: a call returns the id made of the counter's numeral
  and advances the counter, so that no id is returned twice.
\<close>

definition generateUuid :: "nat \<Rightarrow> string \<times> nat" where
  "generateUuid g = (''call-'' @ decimal g, Suc g)"

subsection \<open>Operations\<close>

text \<open>
  \<^verbatim>\<open>$countTokensForInvokation(callId, input, token)\<close>: look the counting function
  up by call id; throw when there is none; otherwise call it on the converted input.
\<close>

definition dollar_countTokensForInvokation ::
  "('m, 'vm, 'r, 'vr) typeConvert \<Rightarrow> ('x, 'p, 'vm, 'vr, 'd) ExtHostLanguageModelTools \<Rightarrow>
   string \<Rightarrow> 'm text_or_message \<Rightarrow> CancellationToken \<Rightarrow> int promise" where
  "dollar_countTokensForInvokation tc this callId input token =
     (case tokenCountFuncs this callId of
        None \<Rightarrow> Inl (Error (''Tool invokation call '' @ callId @ '' not found''))
      | Some fn \<Rightarrow>
          fn (case input of
                Text s \<Rightarrow> Text s
              | Message m \<Rightarrow> Message (LanguageModelChatMessage_to tc m))
             (Some token))"

text \<open>
  \<^verbatim>\<open>invokeTool(toolId, options, token)\<close> suspends once, at the \<^verbatim>\<open>await\<close> of the
  round trip. \<open>invokeTool_start\<close> is the code before the suspension (the call id, the
  registration of the counting function, the request), \<open>invokeTool_settle\<close> the code
  after it: the conversion of the result and the \<^verbatim>\<open>finally\<close> block, which runs
  whether the round trip was fulfilled or rejected.
\<close>

definition invokeTool_start ::
  "('x, 'p, 'vm, 'vr, 'd) ExtHostLanguageModelTools \<Rightarrow> nat \<Rightarrow> string \<Rightarrow>
   ('p, 'vm) LanguageModelToolInvokationOptions \<Rightarrow>
   'p IToolInvokationDto \<times> ('x, 'p, 'vm, 'vr, 'd) ExtHostLanguageModelTools \<times> nat" where
  "invokeTool_start this g toolId options =
     (let (callId, g') = generateUuid g;
          this' = (case tokenOptions options of
                     None \<Rightarrow> this
                   | Some tk \<Rightarrow>
                       this\<lparr>tokenCountFuncs := (tokenCountFuncs this)(callId \<mapsto> countTokens tk)\<rparr>)
      in (\<lparr>dto_toolId = toolId, dto_callId = callId, dto_parameters = parameters options,
           dto_tokenBudget = map_option tokenBudget (tokenOptions options)\<rparr>, this', g'))"

definition invokeTool_settle ::
  "('m, 'vm, 'r, 'vr) typeConvert \<Rightarrow> ('x, 'p, 'vm, 'vr, 'd) ExtHostLanguageModelTools \<Rightarrow>
   string \<Rightarrow> 'r promise \<Rightarrow> 'vr promise \<times> ('x, 'p, 'vm, 'vr, 'd) ExtHostLanguageModelTools" where
  "invokeTool_settle tc this callId result =
     (map_sum (\<lambda>e. e) (LanguageModelToolResult_to tc) result,
      this\<lparr>tokenCountFuncs := (tokenCountFuncs this)(callId := None)\<rparr>)"

text \<open>
  The whole call. The far side \<^verbatim>\<open>_proxy.$invokeTool\<close> is the parameter \<open>proxy\<close>:
  from the request, the token and the state at the suspension it gives the settled
  outcome of the round trip, the state found when the call resumes, and the number of
  ids generated in between, so that whatever ran during the wait (token-count
  callbacks, deltas, other invocations) is covered. The generator is only ever advanced
  by calls of \<^verbatim>\<open>generateUuid\<close>.
\<close>

definition invokeTool ::
  "('m, 'vm, 'r, 'vr) typeConvert \<Rightarrow>
   ('p IToolInvokationDto \<Rightarrow> CancellationToken \<Rightarrow>
      ('x, 'p, 'vm, 'vr, 'd) ExtHostLanguageModelTools \<times> nat \<Rightarrow>
      'r promise \<times> ('x, 'p, 'vm, 'vr, 'd) ExtHostLanguageModelTools \<times> nat) \<Rightarrow>
   ('x, 'p, 'vm, 'vr, 'd) ExtHostLanguageModelTools \<Rightarrow> nat \<Rightarrow> string \<Rightarrow>
   ('p, 'vm) LanguageModelToolInvokationOptions \<Rightarrow> CancellationToken \<Rightarrow>
   'vr promise \<times> ('x, 'p, 'vm, 'vr, 'd) ExtHostLanguageModelTools \<times> nat" where
  "invokeTool tc proxy this g toolId options token =
     (let (dto, this1, g1) = invokeTool_start this g toolId options;
          (result, this2, k) = proxy dto token (this1, g1);
          (out, this3) = invokeTool_settle tc this2 (dto_callId dto) result
      in (out, this3, ((snd \<circ> generateUuid) ^^ k) g1))"

text \<open>
  \<^verbatim>\<open>$acceptToolDelta(delta)\<close>. Both guards are JavaScript truthiness tests: an
  object is truthy whenever it is present, a string only when it is present and
  not empty.
\<close>

definition dollar_acceptToolDelta ::
  "('x, 'p, 'vm, 'vr, 'd) ExtHostLanguageModelTools \<Rightarrow> 'd IToolDelta \<Rightarrow>
   ('x, 'p, 'vm, 'vr, 'd) ExtHostLanguageModelTools" where
  "dollar_acceptToolDelta this delta =
     (let this1 = (case added delta of
                     None \<Rightarrow> this
                   | Some t \<Rightarrow> this\<lparr>allTools := (allTools this)(id_t t \<mapsto> t)\<rparr>)
      in (case removed delta of
            None \<Rightarrow> this1
          | Some r \<Rightarrow>
              if r = [] then this1
              else this1\<lparr>allTools := (allTools this1)(r := None)\<rparr>))"

text \<open>
  \<^verbatim>\<open>$invokeTool(dto, token)\<close> on the side that owns the tool. The remote count
  \<^verbatim>\<open>_proxy.$countTokensForInvokation\<close> is the parameter \<open>proxy_count\<close>. The
  function assigns to no field of the class, so the state it returns is the one it
  was given.
\<close>

definition dollar_invokeTool ::
  "('m, 'vm, 'r, 'vr) typeConvert \<Rightarrow>
   (string \<Rightarrow> 'm text_or_message \<Rightarrow> CancellationToken \<Rightarrow> int promise) \<Rightarrow>
   ('x, 'p, 'vm, 'vr, 'd) ExtHostLanguageModelTools \<Rightarrow> 'p IToolInvokationDto \<Rightarrow>
   CancellationToken \<Rightarrow> 'r promise \<times> ('x, 'p, 'vm, 'vr, 'd) ExtHostLanguageModelTools" where
  "dollar_invokeTool tc proxy_count this dto token =
     (case registeredTools this (dto_toolId dto) of
        None \<Rightarrow> (Inl (Error (''Unknown tool '' @ dto_toolId dto)), this)
      | Some item \<Rightarrow>
          (let options =
                 \<lparr>parameters = dto_parameters dto,
                  tokenOptions =
                    (case dto_tokenBudget dto of
                       None \<Rightarrow> None
                     | Some b \<Rightarrow>
                         Some \<lparr>tokenBudget = b,
                               countTokens =
                                 (case tokenCountFuncs this (dto_callId dto) of
                                    Some fn \<Rightarrow> fn
                                  | None \<Rightarrow>
                                      (\<lambda>value tok.
                                         proxy_count (dto_callId dto)
                                           (case value of
                                              Text s \<Rightarrow> Text s
                                            | Message m \<Rightarrow>
                                                Message (LanguageModelChatMessage_from tc m))
                                           (case tok of
                                              None \<Rightarrow> CancellationToken_None
                                            | Some t \<Rightarrow> t)))\<rparr>)\<rparr>
           in (map_sum (\<lambda>e. e) (LanguageModelToolResult_from tc) (tool item options token),
               this)))"

section \<open>The command service (\<^verbatim>\<open>CommandService\<close>)\<close>

subsection \<open>Data\<close>

text \<open>
  A command handler as \<^verbatim>\<open>_instantiationService.invokeFunction\<close> runs it on the
  caller's arguments: it throws or returns a rejected promise (\<open>Inl\<close>), or gives a
  value (\<open>Inr\<close>). \<^verbatim>\<open>CommandsRegistry\<close> is imported; its contents are a
  parameter, a map from command ids to commands.
\<close>

record ('a, 'v) ICommand =
  handler :: "'a list \<Rightarrow> 'v promise"

type_synonym ('a, 'v) CommandsRegistry = "string \<rightharpoonup> ('a, 'v) ICommand"

text \<open>
  The futures \<^verbatim>\<open>executeCommand\<close> builds: the one returned by
  \<^verbatim>\<open>activateByEvent(event)\<close> and \<^verbatim>\<open>Promise.all\<close> of a list of them.
\<close>

datatype thenable = Activation string | All "thenable list"

text \<open>
  What the service does to its collaborators, in program order. \<open>Await w\<close> is the
  suspension of \<^verbatim>\<open>waitFor.then(...)\<close> on the future \<open>w\<close>.
\<close>

datatype 'a effect =
    LogTrace string
  | ActivateByEvent string
  | WithProgress string thenable
  | Await thenable
  | WillExecuteCommand string
  | InvokeFunction string "'a list"

text \<open>
  The private field, and whether the callback the constructor attached to
  \<^verbatim>\<open>whenInstalledExtensionsRegistered()\<close> is still to run (a promise runs a
  \<^verbatim>\<open>then\<close> callback at most once).
\<close>

record CommandService =
  extensionHostIsReady :: bool
  readyCallbackPending :: bool

datatype 'a op =
    InstalledExtensionsRegistered bool
  | ExecuteCommand string "'a list"

subsection \<open>Operations\<close>

definition constructor :: CommandService where
  "constructor = \<lparr>extensionHostIsReady = False, readyCallbackPending = True\<rparr>"

text \<open>
  How a future settles is decided outside the service. It is the parameter \<open>ext\<close> of
  \<^verbatim>\<open>executeCommand\<close> below: \<open>ext w\<close> is the outcome with which the future
  \<open>w\<close> settles, for the future of one activation event and for a combined future
  alike. The outcome of a combined future is not computed from those of its members:
  \<^verbatim>\<open>Promise.all\<close> rejects with the error of the member that rejects first in time,
  and the order in time is not known to the service. What \<^verbatim>\<open>Promise.all\<close> does
  guarantee is \<open>Promise_all_law\<close>: it is fulfilled only when every member is, and
  rejected only with the error of a rejected member.
\<close>

definition Promise_all_law :: "(thenable \<Rightarrow> unit promise) \<Rightarrow> thenable list \<Rightarrow> bool" where
  "Promise_all_law ext ws =
     (case ext (All ws) of
        Inr _ \<Rightarrow> list_all (\<lambda>w. ext w = Inr ()) ws
      | Inl e \<Rightarrow> list_ex (\<lambda>w. ext w = Inl e) ws)"

text \<open>\<^verbatim>\<open>_tryExecuteCommand(id, args)\<close> on the registry as it is when it runs.\<close>

definition tryExecuteCommand ::
  "('a, 'v) CommandsRegistry \<Rightarrow> string \<Rightarrow> 'a list \<Rightarrow> 'a effect list \<times> 'v promise" where
  "tryExecuteCommand registry id' args =
     (case registry id' of
        None \<Rightarrow> ([], Inl (Error (''command '' @ [CHR 0x27] @ id' @ [CHR 0x27] @ '' not found'')))
      | Some command \<Rightarrow>
          ([WillExecuteCommand id', InvokeFunction id' args], handler command args))"

text \<open>
  \<^verbatim>\<open>executeCommand(id, ...args)\<close>. \<open>now\<close> is the registry when the call is
  made, \<open>later\<close> the registry when the continuation of \<^verbatim>\<open>waitFor.then\<close> runs
  (activation may have registered commands in between). A rejected \<open>waitFor\<close>
  skips the continuation, as \<^verbatim>\<open>then\<close> with one callback does.
\<close>

definition executeCommand ::
  "CommandService \<Rightarrow> (thenable \<Rightarrow> unit promise) \<Rightarrow> ('a, 'v) CommandsRegistry \<Rightarrow>
   ('a, 'v) CommandsRegistry \<Rightarrow> string \<Rightarrow> 'a list \<Rightarrow> 'a effect list \<times> 'v promise" where
  "executeCommand this ext now later id' args =
     (let activation = Activation (''onCommand:'' @ id');
          commandIsRegistered = (now id' \<noteq> None);
          sent = [LogTrace id', ActivateByEvent (''onCommand:'' @ id')]
      in if \<not> extensionHostIsReady this \<and> commandIsRegistered then
           (let (fx, p) = tryExecuteCommand now id' args in (sent @ fx, p))
         else
           (let waitFor = (if \<not> commandIsRegistered
                           then All [activation, Activation ''*'']
                           else activation);
                sent' = sent @ (if \<not> commandIsRegistered then [ActivateByEvent ''*''] else [])
                          @ [WithProgress id' waitFor, Await waitFor]
            in (case ext waitFor of
                  Inl e \<Rightarrow> (sent', Inl e)
                | Inr _ \<Rightarrow>
                    (let (fx, p) = tryExecuteCommand later id' args in (sent' @ fx, p)))))"

text \<open>
  One step of the service's life. The callback of the constructor is the only
  assignment to \<^verbatim>\<open>_extensionHostIsReady\<close>; \<^verbatim>\<open>executeCommand\<close> and
  \<^verbatim>\<open>_tryExecuteCommand\<close> assign no field.
\<close>

fun step :: "CommandService \<Rightarrow> 'a op \<Rightarrow> CommandService" where
  "step this (InstalledExtensionsRegistered value) =
     (if readyCallbackPending this
      then this\<lparr>extensionHostIsReady := value, readyCallbackPending := False\<rparr>
      else this)"
| "step this (ExecuteCommand id' args) = this"

text \<open>The states the service goes through under a sequence of steps, the first included.\<close>

fun run :: "CommandService \<Rightarrow> 'a op list \<Rightarrow> CommandService list" where
  "run this [] = [this]"
| "run this (x # xs) = this # run (step this x) xs"

text \<open>The number of changes from false to true, and from true to false, along a list.\<close>

fun rises :: "bool list \<Rightarrow> nat" where
  "rises (a # b # bs) = (if \<not> a \<and> b then 1 else 0) + rises (b # bs)"
| "rises _ = 0"

fun falls :: "bool list \<Rightarrow> nat" where
  "falls (a # b # bs) = (if a \<and> \<not> b then 1 else 0) + falls (b # bs)"
| "falls _ = 0"

section \<open>Sample inputs\<close>

text \<open>
  The state the constructor of \<^verbatim>\<open>ExtHostLanguageModelTools\<close> leaves: three empty
  maps (the snapshot of \<^verbatim>\<open>$getTools\<close> arrives later).
\<close>

definition new_ExtHostLanguageModelTools :: "('x, 'p, 'vm, 'vr, 'd) ExtHostLanguageModelTools" where
  "new_ExtHostLanguageModelTools =
     \<lparr>registeredTools = Map.empty, tokenCountFuncs = Map.empty, allTools = Map.empty\<rparr>"

text \<open>
  Concrete values on which the statements below are evaluated: converters that leave
  strings as they are, a caller whose counting function answers 5, a request with a
  budget of 100, a tool that counts the tokens of "hello" and reports what it was told,
  far sides that cancel or answer, and a registry with one command.
\<close>

type_synonym sample_host = "(unit, string, string, string, unit) ExtHostLanguageModelTools"

definition sample_convert :: "(string, string, string, string) typeConvert" where
  "sample_convert =
     \<lparr>LanguageModelChatMessage_to = (\<lambda>m. m), LanguageModelChatMessage_from = (\<lambda>m. m),
      LanguageModelToolResult_to = (\<lambda>r. r), LanguageModelToolResult_from = (\<lambda>r. r)\<rparr>"

definition sample_countTokens :: "string countTokens_fn" where
  "sample_countTokens = (\<lambda>text token. Inr 5)"

definition sample_tokenOptions :: "string tokenOptions" where
  "sample_tokenOptions = \<lparr>tokenBudget = 100, countTokens = sample_countTokens\<rparr>"

definition sample_options :: "(string, string) LanguageModelToolInvokationOptions" where
  "sample_options = \<lparr>parameters = ''q=x'', tokenOptions = Some sample_tokenOptions\<rparr>"

definition other_tokenOptions :: "string tokenOptions" where
  "other_tokenOptions = \<lparr>tokenBudget = 50, countTokens = (\<lambda>text token. Inr 9)\<rparr>"

definition other_options :: "(string, string) LanguageModelToolInvokationOptions" where
  "other_options = \<lparr>parameters = ''q=y'', tokenOptions = Some other_tokenOptions\<rparr>"

definition sample_tool :: "(string, string, string) LanguageModelTool" where
  "sample_tool options token =
     (case tokenOptions options of
        None \<Rightarrow> Inr ''no budget''
      | Some tk \<Rightarrow>
          (case countTokens tk (Text ''hello'') (Some token) of
             Inl e \<Rightarrow> Inl e
           | Inr n \<Rightarrow> Inr (if n = 5 then ''five tokens'' else ''another count'')))"

definition sample_owner :: sample_host where
  "sample_owner =
     new_ExtHostLanguageModelTools
       \<lparr>registeredTools := [''search'' \<mapsto> \<lparr>extension = (), tool = sample_tool\<rparr>]\<rparr>"

definition sample_dto :: "string IToolInvokationDto" where
  "sample_dto =
     \<lparr>dto_toolId = ''search'', dto_callId = ''call-0'', dto_parameters = ''q=x'',
      dto_tokenBudget = Some 100\<rparr>"

definition proxy_cancelled ::
  "string IToolInvokationDto \<Rightarrow> CancellationToken \<Rightarrow> sample_host \<times> nat \<Rightarrow>
   string promise \<times> sample_host \<times> nat" where
  "proxy_cancelled dto token w = (Inl (Error ''Canceled''), fst w, 0)"

definition proxy_count_seven :: "string \<Rightarrow> string text_or_message \<Rightarrow> CancellationToken \<Rightarrow> int promise" where
  "proxy_count_seven callId input token = Inr 7"

definition sample_registry :: "(string, string) CommandsRegistry" where
  "sample_registry = [''x'' \<mapsto> \<lparr>handler = (\<lambda>args. Inr ''done'')\<rparr>]"

definition no_commands :: "(string, string) CommandsRegistry" where
  "no_commands = Map.empty"

definition ready_service :: CommandService where
  "ready_service = \<lparr>extensionHostIsReady = True, readyCallbackPending = False\<rparr>"

definition activation_fulfilled :: "thenable \<Rightarrow> unit promise" where
  "activation_fulfilled w = Inr ()"

definition activation_rejected :: "thenable \<Rightarrow> unit promise" where
  "activation_rejected w = Inl (Error ''activation failed'')"

text \<open>
  Both activation futures are rejected, with different errors, and the one of
  \<^verbatim>\<open>*\<close> is rejected first: that is the error \<^verbatim>\<open>Promise.all\<close> reports.
\<close>

fun star_rejected_first :: "thenable \<Rightarrow> unit promise" where
  "star_rejected_first (Activation event) =
     Inl (Error (if event = ''*'' then ''star failed'' else ''onCommand failed''))"
| "star_rejected_first (All ws) = Inl (Error ''star failed'')"

section \<open>Call ids are fresh\<close>

lemma of_char_digit_char: "d < 10 \<Longrightarrow> of_char (digit_char d) = 48 + d"
  by (simp add: digit_char_def)

text \<open>Reading the digits back gives the number, so \<open>decimal\<close> is injective.\<close>

lemma decimal_value: "foldl (\<lambda>a c. 10 * a + (of_char c - 48)) 0 (decimal n) = n"
proof (induction n rule: decimal.induct)
  case (1 n)
  show ?case
  proof (cases "n < 10")
    case True
    with of_char_digit_char [of n] show ?thesis
      by (subst decimal.simps) simp
  next
    case False
    have d: "of_char (digit_char (n mod 10)) = 48 + n mod 10"
      by (rule of_char_digit_char) simp
    from False 1 d show ?thesis
      by (subst decimal.simps) simp
  qed
qed

lemma decimal_inj: "decimal a = decimal b \<Longrightarrow> a = b"
  by (metis decimal_value)

lemma generateUuid_fresh: "g \<noteq> g' \<Longrightarrow> fst (generateUuid g) \<noteq> fst (generateUuid g')"
  by (auto simp: generateUuid_def dest: decimal_inj)

text \<open>The generator is only advanced: after \<open>k\<close> further calls the counter is \<open>k\<close> higher.\<close>

lemma generateUuid_advances: "((snd \<circ> generateUuid) ^^ k) g = g + k"
  by (induction k) (simp_all add: generateUuid_def)

lemma generateUuid_0: "generateUuid 0 = (''call-0'', Suc 0)"
  by code_simp

lemma generateUuid_1: "generateUuid (Suc 0) = (''call-1'', Suc (Suc 0))"
  by code_simp

section \<open>The tool bridge\<close>

lemma invokeTool_start_callId:
  "invokeTool_start this g toolId options = (dto, this', g') \<Longrightarrow>
   dto_callId dto = fst (generateUuid g) \<and> g' = Suc g"
  by (auto simp: invokeTool_start_def generateUuid_def Let_def split: option.splits)

lemma invokeTool_start_registers:
  "tokenOptions options = Some tk \<Longrightarrow>
   tokenCountFuncs (fst (snd (invokeTool_start this g toolId options))) =
     (tokenCountFuncs this)(fst (generateUuid g) \<mapsto> countTokens tk)"
  by (simp add: invokeTool_start_def generateUuid_def Let_def)

lemma invokeTool_settle_removes:
  "tokenCountFuncs (snd (invokeTool_settle tc this callId result)) callId = None"
  by (simp add: invokeTool_settle_def)

text \<open>
  C5. A token-count callback for a call id with no registered counting function fails
  with the error naming the call id and gives no number; this is so for every call id
  on a freshly constructed host (never registered) and for the call id of an
  invocation that has settled (removed). For a registered call id the answer is that
  of the function registered under this very id, applied to the converted input and
  the token.
\<close>

theorem countTokens_lookup:
  "(tokenCountFuncs (this :: ('x, 'p, 'vm, 'vr, 'd) ExtHostLanguageModelTools) callId = None \<longrightarrow>
      dollar_countTokensForInvokation tc this callId input token =
        Inl (Error (''Tool invokation call '' @ callId @ '' not found'')) \<and>
      (\<forall>n. dollar_countTokensForInvokation tc this callId input token \<noteq> Inr n)) \<and>
   (tokenCountFuncs this callId = Some fn \<longrightarrow>
      dollar_countTokensForInvokation tc this callId input token =
        fn (case input of
              Text s \<Rightarrow> Text s
            | Message m \<Rightarrow> Message (LanguageModelChatMessage_to tc m))
           (Some token)) \<and>
   dollar_countTokensForInvokation tc
     (new_ExtHostLanguageModelTools :: ('x, 'p, 'vm, 'vr, 'd) ExtHostLanguageModelTools)
     callId input token =
     Inl (Error (''Tool invokation call '' @ callId @ '' not found'')) \<and>
   dollar_countTokensForInvokation tc (snd (invokeTool_settle tc this callId result))
     callId input token =
     Inl (Error (''Tool invokation call '' @ callId @ '' not found''))"
proof -
  have fresh: "tokenCountFuncs
      (new_ExtHostLanguageModelTools :: ('x, 'p, 'vm, 'vr, 'd) ExtHostLanguageModelTools)
      callId = None"
    by (simp add: new_ExtHostLanguageModelTools_def)
  have gone: "tokenCountFuncs (snd (invokeTool_settle tc this callId result)) callId = None"
    by (rule invokeTool_settle_removes)
  show ?thesis
    by (simp add: dollar_countTokensForInvokation_def fresh gone)
qed

theorem countTokens_lookup_witness:
  "tokenCountFuncs (new_ExtHostLanguageModelTools :: sample_host) ''call-0'' = None \<and>
   dollar_countTokensForInvokation sample_convert (new_ExtHostLanguageModelTools :: sample_host)
     ''call-0'' (Text ''hello'') CancellationToken_None =
     Inl (Error ''Tool invokation call call-0 not found'') \<and>
   dollar_countTokensForInvokation sample_convert
     ((new_ExtHostLanguageModelTools :: sample_host)
        \<lparr>tokenCountFuncs := [''call-0'' \<mapsto> sample_countTokens]\<rparr>)
     ''call-0'' (Text ''hello'') CancellationToken_None = Inr 5 \<and>
   dollar_countTokensForInvokation sample_convert
     (snd (invokeTool_settle sample_convert
             ((new_ExtHostLanguageModelTools :: sample_host)
                \<lparr>tokenCountFuncs := [''call-0'' \<mapsto> sample_countTokens]\<rparr>)
             ''call-0'' (Inr ''found'')))
     ''call-0'' (Text ''hello'') CancellationToken_None =
     Inl (Error ''Tool invokation call call-0 not found'')"
  using countTokens_lookup
    [of "new_ExtHostLanguageModelTools :: sample_host" "''call-0''" sample_convert
        "Text ''hello''" CancellationToken_None sample_countTokens "Inr ''found''"]
    countTokens_lookup
    [of "(new_ExtHostLanguageModelTools :: sample_host)
           \<lparr>tokenCountFuncs := [''call-0'' \<mapsto> sample_countTokens]\<rparr>" "''call-0''"
        sample_convert "Text ''hello''" CancellationToken_None sample_countTokens
        "Inr ''found''"]
  by (simp add: new_ExtHostLanguageModelTools_def sample_countTokens_def)

text \<open>
  C2. While an invocation that brought a counting function is in flight, the function
  is registered under the invocation's call id. When the invocation has settled,
  whatever the outcome of the round trip (a result, an error, a cancellation) and
  whatever happened to the state in between, the map holds nothing under that call
  id, and a token-count callback with it fails with the error naming the id.
\<close>

theorem invokeTool_cleanup:
  "(tokenOptions options = Some tk \<longrightarrow>
      tokenCountFuncs (fst (snd (invokeTool_start this g toolId options))) (fst (generateUuid g))
        = Some (countTokens tk)) \<and>
   tokenCountFuncs (fst (snd (invokeTool tc proxy this g toolId options token)))
     (fst (generateUuid g)) = None \<and>
   dollar_countTokensForInvokation tc
     (fst (snd (invokeTool tc proxy this g toolId options token)))
     (fst (generateUuid g)) input tok =
     Inl (Error (''Tool invokation call '' @ fst (generateUuid g) @ '' not found''))"
proof -
  obtain dto this1 g1 where s: "invokeTool_start this g toolId options = (dto, this1, g1)"
    by (metis prod_cases3)
  obtain result this2 g2 where p: "proxy dto token (this1, g1) = (result, this2, g2)"
    by (metis prod_cases3)
  have c: "dto_callId dto = fst (generateUuid g)"
    using invokeTool_start_callId [OF s] by simp
  have "fst (snd (invokeTool tc proxy this g toolId options token)) =
        snd (invokeTool_settle tc this2 (fst (generateUuid g)) result)"
    by (simp add: invokeTool_def s p c split: prod.splits)
  then have "tokenCountFuncs (fst (snd (invokeTool tc proxy this g toolId options token)))
     (fst (generateUuid g)) = None"
    by (simp add: invokeTool_settle_removes)
  then show ?thesis
    by (simp add: dollar_countTokensForInvokation_def invokeTool_start_registers)
qed

theorem invokeTool_cleanup_witness:
  "tokenOptions sample_options = Some sample_tokenOptions \<and>
   tokenCountFuncs
     (fst (snd (invokeTool_start (new_ExtHostLanguageModelTools :: sample_host) 0 ''search''
                  sample_options))) ''call-0'' = Some sample_countTokens \<and>
   fst (invokeTool sample_convert proxy_cancelled new_ExtHostLanguageModelTools 0 ''search''
          sample_options CancellationToken_None) = Inl (Error ''Canceled'') \<and>
   tokenCountFuncs
     (fst (snd (invokeTool sample_convert proxy_cancelled new_ExtHostLanguageModelTools 0
                  ''search'' sample_options CancellationToken_None))) ''call-0'' = None \<and>
   dollar_countTokensForInvokation sample_convert
     (fst (snd (invokeTool sample_convert proxy_cancelled new_ExtHostLanguageModelTools 0
                  ''search'' sample_options CancellationToken_None)))
     ''call-0'' (Text ''hello'') CancellationToken_None =
     Inl (Error ''Tool invokation call call-0 not found'')"
proof -
  have out: "fst (invokeTool sample_convert proxy_cancelled new_ExtHostLanguageModelTools 0
          ''search'' sample_options CancellationToken_None) = Inl (Error ''Canceled'')"
    by (simp add: invokeTool_def invokeTool_start_def invokeTool_settle_def generateUuid_0
        proxy_cancelled_def sample_options_def)
  show ?thesis
    using out invokeTool_cleanup
      [of sample_options sample_tokenOptions "new_ExtHostLanguageModelTools :: sample_host" 0
          "''search''" sample_convert proxy_cancelled CancellationToken_None "Text ''hello''"
          CancellationToken_None]
    by (simp add: generateUuid_0 sample_options_def sample_tokenOptions_def)
qed

lemma acceptToolDelta_added:
  "allTools (dollar_acceptToolDelta this \<lparr>added = Some T, removed = None\<rparr>) =
     (allTools this)(id_t T \<mapsto> T)"
  by (simp add: dollar_acceptToolDelta_def)

lemma acceptToolDelta_removed_absent:
  assumes "allTools this X = None"
  shows "dollar_acceptToolDelta this \<lparr>added = None, removed = Some X\<rparr> = this"
proof -
  from assms have "(allTools this)(X := None) = allTools this"
    by (metis fun_upd_triv)
  then show ?thesis
    by (simp add: dollar_acceptToolDelta_def)
qed

text \<open>
  C3, as the code has it. A delta that adds \<open>T\<close> stores \<open>T\<close> under its id,
  replacing what was there; a delta that removes an id the table does not hold leaves
  the state as it was; adding \<open>T\<close> and then removing its id leaves the table without
  that id, provided the id is not the empty string.
\<close>

theorem acceptToolDelta_idempotent:
  "allTools (dollar_acceptToolDelta this \<lparr>added = Some T, removed = None\<rparr>) =
     (allTools this)(id_t T \<mapsto> T) \<and>
   (allTools this X = None \<longrightarrow>
      dollar_acceptToolDelta this \<lparr>added = None, removed = Some X\<rparr> = this) \<and>
   (id_t T \<noteq> [] \<longrightarrow>
      allTools (dollar_acceptToolDelta
                  (dollar_acceptToolDelta this \<lparr>added = Some T, removed = None\<rparr>)
                  \<lparr>added = None, removed = Some (id_t T)\<rparr>) (id_t T) = None)"
  using acceptToolDelta_removed_absent [of this X]
  by (simp add: acceptToolDelta_added) (simp add: dollar_acceptToolDelta_def)

theorem acceptToolDelta_idempotent_witness:
  "allTools (dollar_acceptToolDelta
               ((new_ExtHostLanguageModelTools :: sample_host)
                  \<lparr>allTools := [''search'' \<mapsto> \<lparr>id_t = ''search'', metadata = ()\<rparr>]\<rparr>)
               \<lparr>added = Some \<lparr>id_t = ''search'', metadata = ()\<rparr>, removed = None\<rparr>) ''search''
     = Some \<lparr>id_t = ''search'', metadata = ()\<rparr> \<and>
   dollar_acceptToolDelta (new_ExtHostLanguageModelTools :: sample_host)
     \<lparr>added = None, removed = Some ''missing''\<rparr> = new_ExtHostLanguageModelTools \<and>
   allTools (dollar_acceptToolDelta
               (dollar_acceptToolDelta (new_ExtHostLanguageModelTools :: sample_host)
                  \<lparr>added = Some \<lparr>id_t = ''search'', metadata = ()\<rparr>, removed = None\<rparr>)
               \<lparr>added = None, removed = Some ''search''\<rparr>) ''search'' = None"
  using acceptToolDelta_idempotent
    [of "new_ExtHostLanguageModelTools :: sample_host"
        "\<lparr>id_t = ''search'', metadata = ()\<rparr>" "''missing''"]
    acceptToolDelta_idempotent
    [of "(new_ExtHostLanguageModelTools :: sample_host)
           \<lparr>allTools := [''search'' \<mapsto> \<lparr>id_t = ''search'', metadata = ()\<rparr>]\<rparr>"
        "\<lparr>id_t = ''search'', metadata = ()\<rparr>" "''missing''"]
  by (simp add: new_ExtHostLanguageModelTools_def)

text \<open>
  C3 as stated fails for the empty id: \<^verbatim>\<open>if (delta.removed)\<close> is false for the
  empty string, so the removal is skipped and the descriptor stays in the table.
\<close>

theorem acceptToolDelta_empty_id_counterexample:
  "allTools (dollar_acceptToolDelta
               (dollar_acceptToolDelta (new_ExtHostLanguageModelTools :: sample_host)
                  \<lparr>added = Some \<lparr>id_t = [], metadata = ()\<rparr>, removed = None\<rparr>)
               \<lparr>added = None, removed = Some []\<rparr>) []
     = Some \<lparr>id_t = [], metadata = ()\<rparr>"
  by (simp add: dollar_acceptToolDelta_def new_ExtHostLanguageModelTools_def)

text \<open>
  C4. For a tool id that \<^verbatim>\<open>_registeredTools\<close> does not hold, \<^verbatim>\<open>$invokeTool\<close>
  fails with the error "Unknown tool" followed by the id, and the state (the registry
  of this side and the table of all known tools with it) is the one before the call.
\<close>

theorem invokeTool_unknown_tool:
  "registeredTools this (dto_toolId dto) = None \<Longrightarrow>
   fst (dollar_invokeTool tc proxy_count this dto token) =
     Inl (Error (''Unknown tool '' @ dto_toolId dto)) \<and>
   registeredTools (snd (dollar_invokeTool tc proxy_count this dto token)) = registeredTools this \<and>
   allTools (snd (dollar_invokeTool tc proxy_count this dto token)) = allTools this \<and>
   snd (dollar_invokeTool tc proxy_count this dto token) = this"
  by (simp add: dollar_invokeTool_def)

theorem invokeTool_unknown_tool_witness:
  "registeredTools sample_owner ''missing'' = None \<and>
   dollar_invokeTool sample_convert proxy_count_seven sample_owner
     (sample_dto\<lparr>dto_toolId := ''missing''\<rparr>) CancellationToken_None =
     (Inl (Error ''Unknown tool missing''), sample_owner)"
  using invokeTool_unknown_tool
    [of sample_owner "sample_dto\<lparr>dto_toolId := ''missing''\<rparr>" sample_convert
        proxy_count_seven CancellationToken_None]
  by (simp add: sample_owner_def sample_dto_def prod_eq_iff)

text \<open>
  C10. With a token budget in the request, the counting capability handed to the tool
  is the function registered in this extension host under the request's call id when
  there is one; when there is none it is the remote count, which sends the call id,
  the converted value and the token (or \<^verbatim>\<open>CancellationToken.None\<close>) to the
  caller's side.
\<close>

theorem invokeTool_counting_capability:
  "registeredTools this (dto_toolId dto) = Some item \<Longrightarrow> dto_tokenBudget dto = Some b \<Longrightarrow>
   (tokenCountFuncs this (dto_callId dto) = Some fn \<longrightarrow>
      fst (dollar_invokeTool tc proxy_count this dto token) =
        map_sum (\<lambda>e. e) (LanguageModelToolResult_from tc)
          (tool item \<lparr>parameters = dto_parameters dto,
                      tokenOptions = Some \<lparr>tokenBudget = b, countTokens = fn\<rparr>\<rparr> token)) \<and>
   (tokenCountFuncs this (dto_callId dto) = None \<longrightarrow>
      fst (dollar_invokeTool tc proxy_count this dto token) =
        map_sum (\<lambda>e. e) (LanguageModelToolResult_from tc)
          (tool item \<lparr>parameters = dto_parameters dto,
                      tokenOptions = Some \<lparr>tokenBudget = b,
                        countTokens = (\<lambda>value tok.
                           proxy_count (dto_callId dto)
                             (case value of
                                Text s \<Rightarrow> Text s
                              | Message m \<Rightarrow> Message (LanguageModelChatMessage_from tc m))
                             (case tok of None \<Rightarrow> CancellationToken_None | Some t \<Rightarrow> t))\<rparr>\<rparr>
             token))"
  by (simp add: dollar_invokeTool_def)

theorem invokeTool_counting_capability_witness:
  "registeredTools sample_owner (dto_toolId sample_dto) =
     Some \<lparr>extension = (), tool = sample_tool\<rparr> \<and>
   dto_tokenBudget sample_dto = Some 100 \<and>
   fst (dollar_invokeTool sample_convert proxy_count_seven
          (sample_owner\<lparr>tokenCountFuncs := [''call-0'' \<mapsto> sample_countTokens]\<rparr>)
          sample_dto CancellationToken_None) = Inr ''five tokens'' \<and>
   fst (dollar_invokeTool sample_convert proxy_count_seven sample_owner
          sample_dto CancellationToken_None) = Inr ''another count''"
  using invokeTool_counting_capability
    [of "sample_owner\<lparr>tokenCountFuncs := [''call-0'' \<mapsto> sample_countTokens]\<rparr>" sample_dto
        "\<lparr>extension = (), tool = sample_tool\<rparr>" 100 sample_countTokens sample_convert
        proxy_count_seven CancellationToken_None]
    invokeTool_counting_capability
    [of sample_owner sample_dto "\<lparr>extension = (), tool = sample_tool\<rparr>" 100
        sample_countTokens sample_convert proxy_count_seven CancellationToken_None]
  by (simp add: sample_owner_def sample_dto_def new_ExtHostLanguageModelTools_def
      sample_tool_def sample_countTokens_def sample_convert_def proxy_count_seven_def)

text \<open>An invocation leaves the generator strictly past the id it was given.\<close>

lemma invokeTool_advances:
  "g < snd (snd (invokeTool tc proxy this g toolId options token))"
proof -
  obtain dto this1 g1 where s: "invokeTool_start this g toolId options = (dto, this1, g1)"
    by (metis prod_cases3)
  obtain result this2 k where p: "proxy dto token (this1, g1) = (result, this2, k)"
    by (metis prod_cases3)
  have "g1 = Suc g"
    using invokeTool_start_callId [OF s] by simp
  then show ?thesis
    by (simp add: invokeTool_def s p generateUuid_advances split: prod.splits)
qed

text \<open>So an invocation started once another has finished gets a different call id.\<close>

lemma invokeTool_then_fresh:
  "fst (generateUuid g) \<noteq>
   fst (generateUuid (snd (snd (invokeTool tc proxy this g toolId options token))))"
  using invokeTool_advances [of g tc proxy this toolId options token]
  by (intro generateUuid_fresh) simp

lemma invokeTool_start_others:
  "c \<noteq> fst (generateUuid g) \<Longrightarrow>
   tokenCountFuncs (fst (snd (invokeTool_start this g toolId options))) c = tokenCountFuncs this c"
  by (simp add: invokeTool_start_def generateUuid_def Let_def split: option.splits)

lemma invokeTool_start_own:
  "tokenCountFuncs (fst (snd (invokeTool_start this g toolId options))) (fst (generateUuid g)) =
     (case tokenOptions options of
        Some tk \<Rightarrow> Some (countTokens tk)
      | None \<Rightarrow> tokenCountFuncs this (fst (generateUuid g)))"
  by (simp add: invokeTool_start_def generateUuid_def Let_def split: option.splits)

text \<open>
  C8. An invocation A is started; then, after any number \<open>k\<close> of further ids has
  been generated and in whatever state \<open>thisM\<close> the host is by then, an invocation
  B is started. The two call ids differ. The start of A puts the function A brought
  under the call id of A, and the start of B leaves the entry under that id as it was, so a token-count callback with the id of A is answered by the
  function found under that id, or fails with the error naming that id when there is
  none (A brought no function, or has settled); it is never answered by what B
  registered. A callback with the id of B is answered by the function B brought;
  when B brought none, by what is found under its own id, or it fails.
\<close>

theorem call_ids_distinct:
  assumes "invokeTool_start this g toolA optionsA = (dtoA, this1, g1)"
    and "invokeTool_start thisM (((snd \<circ> generateUuid) ^^ k) g1) toolB optionsB = (dtoB, this2, g2)"
  shows "dto_callId dtoA \<noteq> dto_callId dtoB \<and>
         tokenCountFuncs this1 (dto_callId dtoA) =
           (case tokenOptions optionsA of
              Some tk \<Rightarrow> Some (countTokens tk)
            | None \<Rightarrow> tokenCountFuncs this (dto_callId dtoA)) \<and>
         tokenCountFuncs this2 (dto_callId dtoA) = tokenCountFuncs thisM (dto_callId dtoA) \<and>
         dollar_countTokensForInvokation tc this2 (dto_callId dtoA) input token =
           (case tokenCountFuncs thisM (dto_callId dtoA) of
              None \<Rightarrow> Inl (Error (''Tool invokation call '' @ dto_callId dtoA @ '' not found''))
            | Some fn \<Rightarrow>
                fn (case input of
                      Text s \<Rightarrow> Text s
                    | Message m \<Rightarrow> Message (LanguageModelChatMessage_to tc m))
                   (Some token)) \<and>
         dollar_countTokensForInvokation tc this2 (dto_callId dtoB) input token =
           (case tokenOptions optionsB of
              Some tk \<Rightarrow>
                countTokens tk
                  (case input of
                     Text s \<Rightarrow> Text s
                   | Message m \<Rightarrow> Message (LanguageModelChatMessage_to tc m))
                  (Some token)
            | None \<Rightarrow>
                (case tokenCountFuncs thisM (dto_callId dtoB) of
                   None \<Rightarrow>
                     Inl (Error (''Tool invokation call '' @ dto_callId dtoB @ '' not found''))
                 | Some fn \<Rightarrow>
                     fn (case input of
                           Text s \<Rightarrow> Text s
                         | Message m \<Rightarrow> Message (LanguageModelChatMessage_to tc m))
                        (Some token)))"
proof -
  let ?gM = "((snd \<circ> generateUuid) ^^ k) g1"
  have a: "dto_callId dtoA = fst (generateUuid g)" and g1: "g1 = Suc g"
    using invokeTool_start_callId [OF assms(1)] by simp_all
  have b: "dto_callId dtoB = fst (generateUuid ?gM)"
    using invokeTool_start_callId [OF assms(2)] by simp
  have "g \<noteq> ?gM"
    using g1 by (simp add: generateUuid_advances)
  then have ne: "dto_callId dtoA \<noteq> dto_callId dtoB"
    unfolding a b by (rule generateUuid_fresh)
  have this1: "this1 = fst (snd (invokeTool_start this g toolA optionsA))"
    using assms(1) by simp
  have f1: "tokenCountFuncs this1 (dto_callId dtoA) =
              (case tokenOptions optionsA of
                 Some tk \<Rightarrow> Some (countTokens tk)
               | None \<Rightarrow> tokenCountFuncs this (dto_callId dtoA))"
    unfolding this1 a by (rule invokeTool_start_own)
  have this2: "this2 = fst (snd (invokeTool_start thisM ?gM toolB optionsB))"
    using assms(2) by simp
  have fa: "tokenCountFuncs this2 (dto_callId dtoA) = tokenCountFuncs thisM (dto_callId dtoA)"
    unfolding this2 using ne b by (simp add: invokeTool_start_others)
  have fb: "tokenCountFuncs this2 (dto_callId dtoB) =
              (case tokenOptions optionsB of
                 Some tk \<Rightarrow> Some (countTokens tk)
               | None \<Rightarrow> tokenCountFuncs thisM (dto_callId dtoB))"
    unfolding this2 b by (rule invokeTool_start_own)
  show ?thesis
    using ne fa f1 by (simp add: dollar_countTokensForInvokation_def fb split: option.splits)
qed

theorem call_ids_distinct_witness:
  "dto_callId (fst (invokeTool_start (new_ExtHostLanguageModelTools :: sample_host) 0
                      ''search'' sample_options)) = ''call-0'' \<and>
   dto_callId (fst (invokeTool_start
                      (fst (snd (invokeTool_start (new_ExtHostLanguageModelTools :: sample_host) 0
                                   ''search'' sample_options)))
                      (Suc 0) ''search'' other_options)) = ''call-1'' \<and>
   dollar_countTokensForInvokation sample_convert
     (fst (snd (invokeTool_start
                  (fst (snd (invokeTool_start (new_ExtHostLanguageModelTools :: sample_host) 0
                               ''search'' sample_options)))
                  (Suc 0) ''search'' other_options)))
     ''call-0'' (Text ''hello'') CancellationToken_None = Inr 5 \<and>
   dollar_countTokensForInvokation sample_convert
     (fst (snd (invokeTool_start
                  (fst (snd (invokeTool_start (new_ExtHostLanguageModelTools :: sample_host) 0
                               ''search'' sample_options)))
                  (Suc 0) ''search'' other_options)))
     ''call-1'' (Text ''hello'') CancellationToken_None = Inr 9 \<and>
   dollar_countTokensForInvokation sample_convert
     (fst (snd (invokeTool_start
                  (snd (invokeTool_settle sample_convert
                          (fst (snd (invokeTool_start
                                       (new_ExtHostLanguageModelTools :: sample_host) 0
                                       ''search'' sample_options)))
                          ''call-0'' (Inr ''found'')))
                  (Suc 0) ''search'' other_options)))
     ''call-0'' (Text ''hello'') CancellationToken_None =
     Inl (Error ''Tool invokation call call-0 not found'') \<and>
   dollar_countTokensForInvokation sample_convert
     (fst (snd (invokeTool_start
                  (snd (invokeTool_settle sample_convert
                          (fst (snd (invokeTool_start
                                       (new_ExtHostLanguageModelTools :: sample_host) 0
                                       ''search'' sample_options)))
                          ''call-0'' (Inr ''found'')))
                  (Suc 0) ''search'' other_options)))
     ''call-1'' (Text ''hello'') CancellationToken_None = Inr 9"
proof -
  let ?A = "invokeTool_start (new_ExtHostLanguageModelTools :: sample_host) 0 ''search''
              sample_options"
  let ?B = "invokeTool_start (fst (snd ?A)) (((snd \<circ> generateUuid) ^^ 0) (Suc 0)) ''search''
              other_options"
  let ?S = "snd (invokeTool_settle sample_convert (fst (snd ?A)) ''call-0'' (Inr ''found''))"
  let ?B' = "invokeTool_start ?S (((snd \<circ> generateUuid) ^^ 0) (Suc 0)) ''search''
               other_options"
  have ga: "snd (snd ?A) = Suc 0"
    by (simp add: invokeTool_start_def generateUuid_0)
  have a: "?A = (fst ?A, fst (snd ?A), Suc 0)"
    using ga by (simp add: prod_eq_iff)
  have b: "?B = (fst ?B, fst (snd ?B), snd (snd ?B))"
    by simp
  have b': "?B' = (fst ?B', fst (snd ?B'), snd (snd ?B'))"
    by simp
  have ia: "dto_callId (fst ?A) = ''call-0''"
    by (simp add: invokeTool_start_def generateUuid_0 sample_options_def)
  have ib: "dto_callId (fst ?B) = ''call-1''"
    by (simp add: invokeTool_start_def generateUuid_1 other_options_def)
  have ib': "dto_callId (fst ?B') = ''call-1''"
    by (simp add: invokeTool_start_def generateUuid_1 other_options_def)
  have fl: "tokenCountFuncs (fst (snd ?A)) ''call-0'' = Some sample_countTokens"
    by (simp add: invokeTool_start_def generateUuid_0 sample_options_def
        sample_tokenOptions_def)
  have fs: "tokenCountFuncs ?S ''call-0'' = None"
    by (rule invokeTool_settle_removes)
  have ob: "tokenOptions other_options = Some other_tokenOptions"
    by (simp add: other_options_def)
  show ?thesis
    using call_ids_distinct
      [OF a b, of sample_convert "Text ''hello''" CancellationToken_None]
      call_ids_distinct
      [OF a b', of sample_convert "Text ''hello''" CancellationToken_None]
      ia ib ib' fl fs ob
    by (simp add: sample_countTokens_def other_tokenOptions_def)
qed

section \<open>The command service\<close>

subsection \<open>The two paths of \<^verbatim>\<open>executeCommand\<close>\<close>

lemma executeCommand_fast:
  "\<not> extensionHostIsReady this \<Longrightarrow> now id' = Some command \<Longrightarrow>
   executeCommand this ext now later id' args =
     ([LogTrace id', ActivateByEvent (''onCommand:'' @ id'), WillExecuteCommand id',
       InvokeFunction id' args], handler command args)"
  by (simp add: executeCommand_def tryExecuteCommand_def)

lemma executeCommand_slow:
  assumes "extensionHostIsReady this \<or> now id' = None"
    and "w = (if now id' = None
              then All [Activation (''onCommand:'' @ id'), Activation ''*'']
              else Activation (''onCommand:'' @ id'))"
  shows "executeCommand this ext now later id' args =
     (case ext w of
        Inl e \<Rightarrow>
          ([LogTrace id', ActivateByEvent (''onCommand:'' @ id')]
             @ (if now id' = None then [ActivateByEvent ''*''] else [])
             @ [WithProgress id' w, Await w], Inl e)
      | Inr u \<Rightarrow>
          ([LogTrace id', ActivateByEvent (''onCommand:'' @ id')]
             @ (if now id' = None then [ActivateByEvent ''*''] else [])
             @ [WithProgress id' w, Await w] @ fst (tryExecuteCommand later id' args),
           snd (tryExecuteCommand later id' args)))"
proof (cases "now id' = None")
  case True
  with assms(2) show ?thesis
    by (simp add: executeCommand_def Let_def split: sum.splits prod.splits)
next
  case False
  with assms show ?thesis
    by (simp add: executeCommand_def Let_def split: sum.splits prod.splits)
qed

lemma tryExecuteCommand_absent:
  "registry id' = None \<Longrightarrow>
   tryExecuteCommand registry id' args =
     ([], Inl (Error (''command '' @ [CHR 0x27] @ id' @ [CHR 0x27] @ '' not found'')))"
  by (simp add: tryExecuteCommand_def)

text \<open>
  The two sample environments settle a combined future as \<^verbatim>\<open>Promise.all\<close> may:
  where every future is fulfilled so is the combined one, and where every future is
  rejected with one and the same error the combined one is rejected with it, whichever
  member rejects first.
\<close>

lemma activation_fulfilled_lawful: "Promise_all_law activation_fulfilled ws"
  by (simp add: Promise_all_law_def activation_fulfilled_def list_all_iff)

lemma activation_rejected_lawful: "ws \<noteq> [] \<Longrightarrow> Promise_all_law activation_rejected ws"
  by (cases ws) (simp_all add: Promise_all_law_def activation_rejected_def)

lemma star_rejected_first_lawful:
  "Promise_all_law star_rejected_first [Activation (''onCommand:'' @ id'), Activation ''*'']"
  by (simp add: Promise_all_law_def)

text \<open>
  C1, as the code has it. For a command that is registered when \<^verbatim>\<open>executeCommand\<close>
  is called: while the extension host is not yet ready the handler is invoked at once,
  the activation event sent but nothing awaited; once the host is ready the service
  awaits the activation future of \<^verbatim>\<open>onCommand:<id>\<close> first, and looks the command
  up and runs it only when that future is fulfilled.
\<close>

theorem executeCommand_fast_path:
  "now id' = Some command \<Longrightarrow>
   (\<not> extensionHostIsReady this \<longrightarrow>
      executeCommand this ext now later id' args =
        ([LogTrace id', ActivateByEvent (''onCommand:'' @ id'), WillExecuteCommand id',
          InvokeFunction id' args], handler command args)) \<and>
   (extensionHostIsReady this \<longrightarrow>
      executeCommand this ext now later id' args =
        (case ext (Activation (''onCommand:'' @ id')) of
           Inl e \<Rightarrow>
             ([LogTrace id', ActivateByEvent (''onCommand:'' @ id'),
               WithProgress id' (Activation (''onCommand:'' @ id')),
               Await (Activation (''onCommand:'' @ id'))], Inl e)
         | Inr u \<Rightarrow>
             ([LogTrace id', ActivateByEvent (''onCommand:'' @ id'),
               WithProgress id' (Activation (''onCommand:'' @ id')),
               Await (Activation (''onCommand:'' @ id'))] @ fst (tryExecuteCommand later id' args),
              snd (tryExecuteCommand later id' args))))"
  using executeCommand_fast [of this now id' command ext later args]
    executeCommand_slow [of this now id' "Activation (''onCommand:'' @ id')" ext later args]
  by (auto split: sum.splits)

theorem executeCommand_fast_path_witness:
  "sample_registry ''x'' = Some \<lparr>handler = (\<lambda>args. Inr ''done'')\<rparr> \<and>
   \<not> extensionHostIsReady constructor \<and>
   executeCommand constructor activation_rejected sample_registry no_commands ''x'' [''arg''] =
     ([LogTrace ''x'', ActivateByEvent ''onCommand:x'', WillExecuteCommand ''x'',
       InvokeFunction ''x'' [''arg'']], Inr ''done'') \<and>
   extensionHostIsReady ready_service \<and>
   executeCommand ready_service activation_rejected sample_registry sample_registry ''x'' [''arg''] =
     ([LogTrace ''x'', ActivateByEvent ''onCommand:x'',
       WithProgress ''x'' (Activation ''onCommand:x''), Await (Activation ''onCommand:x'')],
      Inl (Error ''activation failed''))"
  using executeCommand_fast_path
    [of sample_registry "''x''" "\<lparr>handler = (\<lambda>args. Inr ''done'')\<rparr>" constructor
        activation_rejected no_commands "[''arg'']"]
    executeCommand_fast_path
    [of sample_registry "''x''" "\<lparr>handler = (\<lambda>args. Inr ''done'')\<rparr>" ready_service
        activation_rejected sample_registry "[''arg'']"]
  by (simp add: sample_registry_def constructor_def ready_service_def activation_rejected_def)

text \<open>
  C1 as stated fails: with the host ready and the command registered, the activation
  future is awaited before the handler is invoked.
\<close>

theorem executeCommand_ready_counterexample:
  "executeCommand ready_service activation_fulfilled sample_registry sample_registry ''x'' [] =
     ([LogTrace ''x'', ActivateByEvent ''onCommand:x'',
       WithProgress ''x'' (Activation ''onCommand:x''), Await (Activation ''onCommand:x''),
       WillExecuteCommand ''x'', InvokeFunction ''x'' []], Inr ''done'')"
  by (simp add: executeCommand_def tryExecuteCommand_def ready_service_def
      activation_fulfilled_def sample_registry_def Let_def)

text \<open>
  C6, as the code has it. On the path that waits (the host is ready, or the command
  was not registered at the call): when the combined wait is fulfilled and the command
  is absent from the registry at that moment, \<^verbatim>\<open>executeCommand\<close> fails with the
  error "command '<id>' not found"; nothing is sent or awaited a second time, and
  neither the will-execute event nor a handler runs. \<^verbatim>\<open>_tryExecuteCommand\<close> alone
  gives that error for every absent id.
\<close>

theorem executeCommand_not_found:
  assumes "later id' = None"
    and "extensionHostIsReady this \<or> now id' = None"
    and "w = (if now id' = None
              then All [Activation (''onCommand:'' @ id'), Activation ''*'']
              else Activation (''onCommand:'' @ id'))"
    and "ext w = Inr ()"
  shows "tryExecuteCommand later id' args =
           ([], Inl (Error (''command '' @ [CHR 0x27] @ id' @ [CHR 0x27] @ '' not found''))) \<and>
         executeCommand this ext now later id' args =
           ([LogTrace id', ActivateByEvent (''onCommand:'' @ id')]
              @ (if now id' = None then [ActivateByEvent ''*''] else [])
              @ [WithProgress id' w, Await w],
            Inl (Error (''command '' @ [CHR 0x27] @ id' @ [CHR 0x27] @ '' not found'')))"
  using executeCommand_slow [of this now id' w ext later args]
    tryExecuteCommand_absent [of later id' args] assms
  by simp

theorem executeCommand_not_found_witness:
  "no_commands ''y'' = None \<and>
   activation_fulfilled (All [Activation ''onCommand:y'', Activation ''*'']) = Inr () \<and>
   tryExecuteCommand no_commands ''y'' [''arg''] =
     ([], Inl (Error (''command '' @ [CHR 0x27] @ ''y'' @ [CHR 0x27] @ '' not found''))) \<and>
   executeCommand constructor activation_fulfilled no_commands no_commands ''y'' [''arg''] =
     ([LogTrace ''y'', ActivateByEvent ''onCommand:y'', ActivateByEvent ''*'',
       WithProgress ''y'' (All [Activation ''onCommand:y'', Activation ''*'']),
       Await (All [Activation ''onCommand:y'', Activation ''*''])],
      Inl (Error (''command '' @ [CHR 0x27] @ ''y'' @ [CHR 0x27] @ '' not found'')))"
proof -
  have a: "no_commands ''y'' = None"
    by (simp add: no_commands_def)
  have b: "extensionHostIsReady constructor \<or> no_commands ''y'' = None"
    by (simp add: no_commands_def)
  have c: "All [Activation ''onCommand:y'', Activation ''*''] =
           (if no_commands ''y'' = None
            then All [Activation (''onCommand:'' @ ''y''), Activation ''*'']
            else Activation (''onCommand:'' @ ''y''))"
    by (simp add: no_commands_def)
  have d: "activation_fulfilled (All [Activation ''onCommand:y'', Activation ''*'']) = Inr ()"
    by (simp add: activation_fulfilled_def)
  show ?thesis
    using executeCommand_not_found
      [of no_commands "''y''" constructor no_commands
          "All [Activation ''onCommand:y'', Activation ''*'']" activation_fulfilled "[''arg'']",
        OF a b c d]
      a d
    by simp
qed

text \<open>
  C6 as stated fails when the wait settles by rejection: \<^verbatim>\<open>executeCommand\<close> then
  fails with the error of the wait, which does not carry the command id.
\<close>

theorem executeCommand_not_found_counterexample:
  "no_commands ''y'' = None \<and>
   executeCommand constructor activation_rejected no_commands no_commands ''y'' [] =
     ([LogTrace ''y'', ActivateByEvent ''onCommand:y'', ActivateByEvent ''*'',
       WithProgress ''y'' (All [Activation ''onCommand:y'', Activation ''*'']),
       Await (All [Activation ''onCommand:y'', Activation ''*''])],
      Inl (Error ''activation failed'')) \<and>
   snd (executeCommand constructor activation_rejected no_commands no_commands ''y'' []) \<noteq>
     Inl (Error (''command '' @ [CHR 0x27] @ ''y'' @ [CHR 0x27] @ '' not found''))"
  by (simp add: executeCommand_def Let_def constructor_def activation_rejected_def no_commands_def)

text \<open>
  C7, as the code has it. On the path that waits, the future awaited is the activation
  future of \<^verbatim>\<open>onCommand:<id>\<close>, combined with the one of \<^verbatim>\<open>*\<close> exactly when the
  command was not registered at the call. When that wait is fulfilled, the registry is
  looked up again and the command run by \<^verbatim>\<open>_tryExecuteCommand\<close>; when it is
  rejected, \<^verbatim>\<open>executeCommand\<close> is rejected with the same error and nothing is
  looked up or run.
\<close>

theorem executeCommand_slow_path:
  assumes "extensionHostIsReady this \<or> now id' = None"
    and "w = (if now id' = None
              then All [Activation (''onCommand:'' @ id'), Activation ''*'']
              else Activation (''onCommand:'' @ id'))"
  shows "(w = All [Activation (''onCommand:'' @ id'), Activation ''*'']) = (now id' = None) \<and>
         (w = Activation (''onCommand:'' @ id')) = (now id' \<noteq> None) \<and>
         executeCommand this ext now later id' args =
           (case ext w of
              Inl e \<Rightarrow>
                ([LogTrace id', ActivateByEvent (''onCommand:'' @ id')]
                   @ (if now id' = None then [ActivateByEvent ''*''] else [])
                   @ [WithProgress id' w, Await w], Inl e)
            | Inr u \<Rightarrow>
                ([LogTrace id', ActivateByEvent (''onCommand:'' @ id')]
                   @ (if now id' = None then [ActivateByEvent ''*''] else [])
                   @ [WithProgress id' w, Await w] @ fst (tryExecuteCommand later id' args),
                 snd (tryExecuteCommand later id' args)))"
proof -
  have "executeCommand this ext now later id' args =
           (case ext w of
              Inl e \<Rightarrow>
                ([LogTrace id', ActivateByEvent (''onCommand:'' @ id')]
                   @ (if now id' = None then [ActivateByEvent ''*''] else [])
                   @ [WithProgress id' w, Await w], Inl e)
            | Inr u \<Rightarrow>
                ([LogTrace id', ActivateByEvent (''onCommand:'' @ id')]
                   @ (if now id' = None then [ActivateByEvent ''*''] else [])
                   @ [WithProgress id' w, Await w] @ fst (tryExecuteCommand later id' args),
                 snd (tryExecuteCommand later id' args)))"
    using assms by (rule executeCommand_slow [of this now id' w ext later args])
  moreover have "(w = All [Activation (''onCommand:'' @ id'), Activation ''*'']) = (now id' = None)"
    and "(w = Activation (''onCommand:'' @ id')) = (now id' \<noteq> None)"
    using assms(2) by simp_all
  ultimately show ?thesis
    by simp
qed

theorem executeCommand_slow_path_witness:
  "no_commands ''x'' = None \<and>
   executeCommand constructor activation_fulfilled no_commands sample_registry ''x'' [''arg''] =
     ([LogTrace ''x'', ActivateByEvent ''onCommand:x'', ActivateByEvent ''*'',
       WithProgress ''x'' (All [Activation ''onCommand:x'', Activation ''*'']),
       Await (All [Activation ''onCommand:x'', Activation ''*'']),
       WillExecuteCommand ''x'', InvokeFunction ''x'' [''arg'']], Inr ''done'') \<and>
   extensionHostIsReady ready_service \<and>
   executeCommand ready_service activation_fulfilled sample_registry sample_registry ''x''
       [''arg''] =
     ([LogTrace ''x'', ActivateByEvent ''onCommand:x'',
       WithProgress ''x'' (Activation ''onCommand:x''), Await (Activation ''onCommand:x''),
       WillExecuteCommand ''x'', InvokeFunction ''x'' [''arg'']], Inr ''done'') \<and>
   executeCommand constructor star_rejected_first no_commands sample_registry ''x'' [''arg''] =
     ([LogTrace ''x'', ActivateByEvent ''onCommand:x'', ActivateByEvent ''*'',
       WithProgress ''x'' (All [Activation ''onCommand:x'', Activation ''*'']),
       Await (All [Activation ''onCommand:x'', Activation ''*''])],
      Inl (Error ''star failed''))"
proof -
  have b: "extensionHostIsReady constructor \<or> no_commands ''x'' = None"
    by (simp add: no_commands_def)
  have c: "All [Activation ''onCommand:x'', Activation ''*''] =
           (if no_commands ''x'' = None
            then All [Activation (''onCommand:'' @ ''x''), Activation ''*'']
            else Activation (''onCommand:'' @ ''x''))"
    by (simp add: no_commands_def)
  have b': "extensionHostIsReady ready_service \<or> sample_registry ''x'' = None"
    by (simp add: ready_service_def)
  have c': "Activation ''onCommand:x'' =
           (if sample_registry ''x'' = None
            then All [Activation (''onCommand:'' @ ''x''), Activation ''*'']
            else Activation (''onCommand:'' @ ''x''))"
    by (simp add: sample_registry_def)
  show ?thesis
    using executeCommand_slow_path
      [of constructor no_commands "''x''" "All [Activation ''onCommand:x'', Activation ''*'']"
          activation_fulfilled sample_registry "[''arg'']", OF b c]
      executeCommand_slow_path
      [of ready_service sample_registry "''x''" "Activation ''onCommand:x''"
          activation_fulfilled sample_registry "[''arg'']", OF b' c']
      executeCommand_slow_path
      [of constructor no_commands "''x''" "All [Activation ''onCommand:x'', Activation ''*'']"
          star_rejected_first sample_registry "[''arg'']", OF b c]
    by (simp add: no_commands_def sample_registry_def activation_fulfilled_def
        tryExecuteCommand_def ready_service_def)
qed

text \<open>
  C7 as stated fails when the wait settles by rejection: the command is registered
  before and after the wait, yet it is not run and the error of the wait comes back.
\<close>

theorem executeCommand_slow_path_counterexample:
  "tryExecuteCommand sample_registry ''x'' [] =
     ([WillExecuteCommand ''x'', InvokeFunction ''x'' []], Inr ''done'') \<and>
   executeCommand ready_service activation_rejected sample_registry sample_registry ''x'' [] =
     ([LogTrace ''x'', ActivateByEvent ''onCommand:x'',
       WithProgress ''x'' (Activation ''onCommand:x''), Await (Activation ''onCommand:x'')],
      Inl (Error ''activation failed''))"
  by (simp add: executeCommand_def tryExecuteCommand_def Let_def ready_service_def
      activation_rejected_def sample_registry_def)

subsection \<open>The readiness flag\<close>

lemma rises_cons_run:
  "rises (a # map f (run this xs)) = (if \<not> a \<and> f this then 1 else 0) + rises (map f (run this xs))"
  by (cases xs) simp_all

lemma falls_cons_run:
  "falls (a # map f (run this xs)) = (if a \<and> \<not> f this then 1 else 0) + falls (map f (run this xs))"
  by (cases xs) simp_all

lemma step_not_pending: "\<not> readyCallbackPending this \<Longrightarrow> step this x = this"
  by (cases x) simp_all

text \<open>Once the callback has run, the flag no longer changes.\<close>

lemma run_after_callback:
  "\<not> readyCallbackPending this \<Longrightarrow>
   rises (map extensionHostIsReady (run this xs)) = 0 \<and>
   falls (map extensionHostIsReady (run this xs)) = 0"
proof (induction xs)
  case Nil
  then show ?case by simp
next
  case (Cons x xs)
  then show ?case
    by (simp add: step_not_pending rises_cons_run falls_cons_run)
qed

text \<open>From a state where the flag is false, it rises at most once and never falls.\<close>

lemma run_before_ready:
  "\<not> extensionHostIsReady this \<Longrightarrow>
   rises (map extensionHostIsReady (run this xs)) \<le> 1 \<and>
   falls (map extensionHostIsReady (run this xs)) = 0"
proof (induction xs arbitrary: this)
  case Nil
  then show ?case by simp
next
  case (Cons x xs)
  show ?case
  proof (cases x)
    case (InstalledExtensionsRegistered v)
    show ?thesis
    proof (cases "readyCallbackPending this")
      case True
      let ?t = "this\<lparr>extensionHostIsReady := v, readyCallbackPending := False\<rparr>"
      have "\<not> readyCallbackPending ?t" by simp
      from run_after_callback [OF this, of xs] True Cons.prems InstalledExtensionsRegistered
      show ?thesis
        by (simp add: rises_cons_run falls_cons_run)
    next
      case False
      with Cons.IH [OF Cons.prems] Cons.prems InstalledExtensionsRegistered show ?thesis
        by (simp add: rises_cons_run falls_cons_run)
    qed
  next
    case (ExecuteCommand c args)
    with Cons.IH [OF Cons.prems] Cons.prems show ?thesis
      by (simp add: rises_cons_run falls_cons_run)
  qed
qed

text \<open>
  C9. The flag is false after construction; along every sequence of steps of the
  service (callbacks of the startup signal and command executions, in any order) it
  changes from false to true at most once and never from true to false.
\<close>

theorem extensionHostIsReady_monotonic:
  "\<not> extensionHostIsReady constructor \<and>
   rises (map extensionHostIsReady (run constructor xs)) \<le> 1 \<and>
   falls (map extensionHostIsReady (run constructor xs)) = 0"
  using run_before_ready [of constructor xs] by (simp add: constructor_def)

theorem extensionHostIsReady_monotonic_witness:
  "map extensionHostIsReady
     (run constructor
        [ExecuteCommand ''x'' ([] :: string list), InstalledExtensionsRegistered True,
         ExecuteCommand ''x'' [], InstalledExtensionsRegistered False])
     = [False, False, True, True, True] \<and>
   rises [False, False, True, True, True] \<le> 1 \<and>
   falls [False, False, True, True, True] = 0"
  using extensionHostIsReady_monotonic
    [of "[ExecuteCommand ''x'' ([] :: string list), InstalledExtensionsRegistered True,
          ExecuteCommand ''x'' [], InstalledExtensionsRegistered False]"]
  by (simp add: constructor_def)

end
